theory Spec2Isabelle
  imports
    Complex_Main
    "HOL-Library.Char_ord"
    "HOL-Library.List_Lexorder"
    "HOL-Library.Product_Lexorder"
    "HOL-Library.Multiset"
begin

section \<open>The shared home expense tracker (api/index.py)\<close>

text \<open>
  The backend is one Python module: five SQLAlchemy tables, the pydantic schemas of the
  request bodies, two JWT helpers, two authentication dependencies and the endpoint
  functions. The embedding follows the module top to bottom and keeps its names.

  Conventions of the embedding.
  \<^item> A table is the list of its rows in insertion order; \<open>.first()\<close> is \<open>find\<close>.
    A primary key comes from a per-table sequence that only grows.
  \<^item> A SQLAlchemy session is a record of the durable state, the session's own view
    (the durable state plus the changes not yet committed) and the list of the states
    its commits made durable. \<open>db.commit()\<close> copies the view to the durable state.
    The session is created with \<open>autoflush=False\<close>; every query of the module reads rows
    that no pending change of the same request touches, so reading the view and reading
    the durable state agree.
  \<^item> \<open>raise HTTPException(...)\<close> is the left injection of a sum; the handler returns it
    together with the session as it stood.
  \<^item> The clock (\<open>datetime.utcnow()\<close>) is a parameter, in whole seconds since the epoch,
    the unit of the \<open>exp\<close> claim of a JWT.
  \<^item> \<open>Float\<close> columns are \<open>real\<close>: the module only stores and copies amounts.
  \<^item> What the database engine behind \<open>DATABASE_URL\<close> enforces by itself (foreign keys,
    unique indexes, NOT NULL, column widths, relationship handling on delete) is outside
    the embedding: \<open>db.add\<close> appends a row, \<open>db.delete\<close> removes the rows with that primary
    key, and a commit succeeds. String equality and order in queries are exact equality
    and the lexicographic order of the characters.
\<close>

subsection \<open>JWT configuration\<close>

definition ALGORITHM :: string where
  "ALGORITHM = ''HS256''"

definition ACCESS_TOKEN_EXPIRE_HOURS :: int where
  "ACCESS_TOKEN_EXPIRE_HOURS = 24"

text \<open>\<open>timedelta(hours=h)\<close> in seconds.\<close>

definition timedelta_hours :: "int \<Rightarrow> int" where
  "timedelta_hours h = h * 3600"

subsection \<open>Database models\<close>

record User =
  u_id :: int
  u_username :: string
  u_password :: string
  u_full_name :: string
  u_role :: string
  u_created_at :: int

record Category =
  c_id :: int
  c_name :: string
  c_color :: string
  c_created_at :: int

record Expense =
  e_id :: int
  e_amount :: real
  e_category_id :: int
  e_payment_mode :: string
  e_paid_by :: int
  e_date :: string
  e_time :: string
  e_description :: "string option"
  e_created_at :: int

record ToBuyItem =
  t_id :: int
  t_name :: string
  t_quantity :: "string option"
  t_target_date :: string
  t_priority :: string
  t_notes :: "string option"
  t_created_by :: int
  t_purchased :: bool
  t_purchased_by :: "int option"
  t_purchase_amount :: "real option"
  t_purchase_payment_mode :: "string option"
  t_purchase_date :: "string option"
  t_created_at :: int

record Settings =
  s_id :: int
  s_key :: string
  s_value :: string
  s_updated_at :: int

subsection \<open>Pydantic schemas (request bodies)\<close>

record UserCreate =
  uc_username :: string
  uc_password :: string
  uc_full_name :: string
  uc_role :: string

record UserLogin =
  ul_username :: string
  ul_password :: string

record CategoryCreate =
  cc_name :: string
  cc_color :: string

record ExpenseCreate =
  ec_amount :: real
  ec_category_id :: int
  ec_payment_mode :: string
  ec_paid_by :: int
  ec_date :: string
  ec_time :: string
  ec_description :: "string option"

record ToBuyItemCreate =
  tc_name :: string
  tc_quantity :: "string option"
  tc_target_date :: string
  tc_priority :: string
  tc_notes :: "string option"

record ToBuyItemPurchase =
  tp_purchased_by :: int
  tp_purchase_amount :: real
  tp_purchase_payment_mode :: string
  tp_purchase_date :: string

record SettingsUpdate =
  su_currency_symbol :: string
  su_home_name :: string

subsection \<open>The store and the session\<close>

record database =
  users :: "User list"
  categories :: "Category list"
  expenses :: "Expense list"
  to_buy_items :: "ToBuyItem list"
  settings :: "Settings list"
  users_seq :: int
  categories_seq :: int
  expenses_seq :: int
  to_buy_items_seq :: int
  settings_seq :: int

definition empty_database :: database where
  "empty_database =
     \<lparr>users = [], categories = [], expenses = [], to_buy_items = [], settings = [],
      users_seq = 1, categories_seq = 1, expenses_seq = 1, to_buy_items_seq = 1,
      settings_seq = 1\<rparr>"

record session =
  committed :: database
  pending :: database
  history :: "database list"

definition SessionLocal :: "database \<Rightarrow> session" where
  "SessionLocal d = \<lparr>committed = d, pending = d, history = []\<rparr>"

definition db_commit :: "session \<Rightarrow> session" where
  "db_commit ss = ss\<lparr>committed := pending ss, history := history ss @ [pending ss]\<rparr>"

subsection \<open>HTTP errors\<close>

datatype HTTPException =
  HTTPException (status_code: int) (detail: string) (headers: "(string \<times> string) list")

abbreviation HTTP_400_BAD_REQUEST :: int where "HTTP_400_BAD_REQUEST \<equiv> 400"
abbreviation HTTP_401_UNAUTHORIZED :: int where "HTTP_401_UNAUTHORIZED \<equiv> 401"
abbreviation HTTP_403_FORBIDDEN :: int where "HTTP_403_FORBIDDEN \<equiv> 403"

subsection \<open>JWT helper functions\<close>

text \<open>
  The PyJWT library is not part of the module. A token is represented by what
  \<open>jwt.encode\<close> puts into it: the algorithm of its header, its claims and the key that
  signed it; a string that is no JWT at all is \<open>Malformed\<close>. \<open>jwt.decode\<close> rejects a token
  whose algorithm is not among the accepted ones, whose signing key is not the
  verification key (an ideal MAC), or whose \<open>exp\<close> claim is not after the current time;
  each rejection is a subclass of \<open>InvalidTokenError\<close>.
\<close>

record claims =
  claim_sub :: "string option"
  claim_exp :: "int option"

datatype token = JWT (jwt_alg: string) (jwt_payload: claims) (jwt_key: string) | Malformed

datatype InvalidTokenError =
  DecodeError | InvalidAlgorithmError | InvalidSignatureError | ExpiredSignatureError

definition jwt_encode :: "claims \<Rightarrow> string \<Rightarrow> string \<Rightarrow> token" where
  "jwt_encode payload key algorithm = JWT algorithm payload key"

fun jwt_decode :: "int \<Rightarrow> token \<Rightarrow> string \<Rightarrow> string list \<Rightarrow> InvalidTokenError + claims" where
  "jwt_decode now Malformed key algorithms = Inl DecodeError"
| "jwt_decode now (JWT alg payload k) key algorithms =
     (if alg \<notin> set algorithms then Inl InvalidAlgorithmError
      else if k \<noteq> key then Inl InvalidSignatureError
      else (case claim_exp payload of
              Some exp' \<Rightarrow> if exp' \<le> now then Inl ExpiredSignatureError else Inr payload
            | None \<Rightarrow> Inr payload))"

definition create_access_token :: "string \<Rightarrow> int \<Rightarrow> claims \<Rightarrow> int option \<Rightarrow> token" where
  "create_access_token SECRET_KEY utcnow data expires_delta =
     (let to_encode = data;
          expire = (case expires_delta of
                      Some d \<Rightarrow> if d \<noteq> 0 then utcnow + d
                                else utcnow + timedelta_hours ACCESS_TOKEN_EXPIRE_HOURS
                    | None \<Rightarrow> utcnow + timedelta_hours ACCESS_TOKEN_EXPIRE_HOURS);
          to_encode = to_encode\<lparr>claim_exp := Some expire\<rparr>;
          encoded_jwt = jwt_encode to_encode SECRET_KEY ALGORITHM
      in encoded_jwt)"

definition decode_access_token :: "string \<Rightarrow> int \<Rightarrow> token \<Rightarrow> string option" where
  "decode_access_token SECRET_KEY now tok =
     (case jwt_decode now tok SECRET_KEY [ALGORITHM] of
        Inr payload \<Rightarrow> (case claim_sub payload of None \<Rightarrow> None | Some username \<Rightarrow> Some username)
      | Inl _ \<Rightarrow> None)"

subsection \<open>Authentication with JWT\<close>

definition get_current_user :: "string \<Rightarrow> int \<Rightarrow> token \<Rightarrow> session \<Rightarrow> HTTPException + User" where
  "get_current_user SECRET_KEY now credentials db =
     (let tok = credentials in
      case decode_access_token SECRET_KEY now tok of
        None \<Rightarrow> Inl (HTTPException HTTP_401_UNAUTHORIZED ''Invalid or expired token''
                      [(''WWW-Authenticate'', ''Bearer'')])
      | Some username \<Rightarrow>
          (case find (\<lambda>u. u_username u = username) (users (pending db)) of
             None \<Rightarrow> Inl (HTTPException HTTP_401_UNAUTHORIZED ''User not found''
                           [(''WWW-Authenticate'', ''Bearer'')])
           | Some user \<Rightarrow> Inr user))"

definition get_admin_user :: "User \<Rightarrow> HTTPException + User" where
  "get_admin_user current_user =
     (if u_role current_user \<noteq> ''admin''
      then Inl (HTTPException HTTP_403_FORBIDDEN ''Admin access required'' [])
      else Inr current_user)"

subsection \<open>Login\<close>

record TokenResponse =
  access_token :: token
  token_type :: string
  tr_user :: User

definition login :: "string \<Rightarrow> int \<Rightarrow> UserLogin \<Rightarrow> session \<Rightarrow> HTTPException + TokenResponse" where
  "login SECRET_KEY now user_login db =
     (case find (\<lambda>u. u_username u = ul_username user_login \<and> u_password u = ul_password user_login)
             (users (pending db)) of
        None \<Rightarrow> Inl (HTTPException HTTP_401_UNAUTHORIZED ''Invalid credentials'' [])
      | Some user \<Rightarrow>
          (let access_token = create_access_token SECRET_KEY now
                 \<lparr>claim_sub = Some (u_username user), claim_exp = None\<rparr> None
           in Inr \<lparr>access_token = access_token, token_type = ''bearer'', tr_user = user\<rparr>))"

subsection \<open>Rows added to a session\<close>

text \<open>
  \<open>db.add(Model(...))\<close>: the row is appended to the session's view with the next value of
  the table's sequence and, where the table has one, \<open>created_at\<close> set from the clock.
\<close>

definition add_user :: "int \<Rightarrow> UserCreate \<Rightarrow> session \<Rightarrow> User \<times> session" where
  "add_user now user db =
     (let d = pending db;
          new_user = \<lparr>u_id = users_seq d, u_username = uc_username user,
                      u_password = uc_password user, u_full_name = uc_full_name user,
                      u_role = uc_role user, u_created_at = now\<rparr>
      in (new_user,
          db\<lparr>pending := d\<lparr>users := users d @ [new_user], users_seq := users_seq d + 1\<rparr>\<rparr>))"

definition add_category :: "int \<Rightarrow> CategoryCreate \<Rightarrow> session \<Rightarrow> Category \<times> session" where
  "add_category now category db =
     (let d = pending db;
          new_category = \<lparr>c_id = categories_seq d, c_name = cc_name category,
                          c_color = cc_color category, c_created_at = now\<rparr>
      in (new_category,
          db\<lparr>pending := d\<lparr>categories := categories d @ [new_category],
                            categories_seq := categories_seq d + 1\<rparr>\<rparr>))"

definition add_expense :: "int \<Rightarrow> ExpenseCreate \<Rightarrow> session \<Rightarrow> Expense \<times> session" where
  "add_expense now expense db =
     (let d = pending db;
          new_expense = \<lparr>e_id = expenses_seq d, e_amount = ec_amount expense,
                         e_category_id = ec_category_id expense,
                         e_payment_mode = ec_payment_mode expense,
                         e_paid_by = ec_paid_by expense, e_date = ec_date expense,
                         e_time = ec_time expense, e_description = ec_description expense,
                         e_created_at = now\<rparr>
      in (new_expense,
          db\<lparr>pending := d\<lparr>expenses := expenses d @ [new_expense],
                            expenses_seq := expenses_seq d + 1\<rparr>\<rparr>))"

definition add_to_buy_item :: "int \<Rightarrow> ToBuyItemCreate \<Rightarrow> int \<Rightarrow> session \<Rightarrow> ToBuyItem \<times> session" where
  "add_to_buy_item now item created_by db =
     (let d = pending db;
          new_item = \<lparr>t_id = to_buy_items_seq d, t_name = tc_name item,
                      t_quantity = tc_quantity item, t_target_date = tc_target_date item,
                      t_priority = tc_priority item, t_notes = tc_notes item,
                      t_created_by = created_by, t_purchased = False, t_purchased_by = None,
                      t_purchase_amount = None, t_purchase_payment_mode = None,
                      t_purchase_date = None, t_created_at = now\<rparr>
      in (new_item,
          db\<lparr>pending := d\<lparr>to_buy_items := to_buy_items d @ [new_item],
                            to_buy_items_seq := to_buy_items_seq d + 1\<rparr>\<rparr>))"

definition add_setting :: "int \<Rightarrow> string \<Rightarrow> string \<Rightarrow> session \<Rightarrow> session" where
  "add_setting now k v db =
     (let d = pending db;
          new_setting = \<lparr>s_id = settings_seq d, s_key = k, s_value = v, s_updated_at = now\<rparr>
      in db\<lparr>pending := d\<lparr>settings := settings d @ [new_setting],
                           settings_seq := settings_seq d + 1\<rparr>\<rparr>)"

subsection \<open>Startup event\<close>

text \<open>The seeded currency symbol, as the bytes of the literal in the module.\<close>

definition seed_currency_symbol :: string where
  "seed_currency_symbol =
     [CHR 0xC3, CHR 0xA2, CHR 0xE2, CHR 0x80, CHR 0x9A, CHR 0xC2, CHR 0xB9]"

definition startup_event :: "int \<Rightarrow> database \<Rightarrow> database" where
  "startup_event now d =
     (let db = SessionLocal d;
          db = (if length (users (pending db)) = 0
                then (let (admin, db) = add_user now
                            \<lparr>uc_username = ''admin'', uc_password = ''admin'',
                             uc_full_name = ''Home Admin'', uc_role = ''admin''\<rparr> db;
                          (user1, db) = add_user now
                            \<lparr>uc_username = ''user1'', uc_password = ''user1'',
                             uc_full_name = ''User One'', uc_role = ''user''\<rparr> db;
                          (user2, db) = add_user now
                            \<lparr>uc_username = ''user2'', uc_password = ''user2'',
                             uc_full_name = ''User Two'', uc_role = ''user''\<rparr> db
                      in db_commit db)
                else db);
          db = (if length (categories (pending db)) = 0
                then (let db = snd (add_category now \<lparr>cc_name = ''Groceries'', cc_color = ''#22c55e''\<rparr> db);
                          db = snd (add_category now \<lparr>cc_name = ''Rent'', cc_color = ''#3b82f6''\<rparr> db);
                          db = snd (add_category now \<lparr>cc_name = ''Utilities'', cc_color = ''#f97316''\<rparr> db);
                          db = snd (add_category now \<lparr>cc_name = ''Transportation'', cc_color = ''#8b5cf6''\<rparr> db);
                          db = snd (add_category now \<lparr>cc_name = ''Entertainment'', cc_color = ''#ec4899''\<rparr> db)
                      in db_commit db)
                else db);
          db = (if length (settings (pending db)) = 0
                then (let db = add_setting now ''currency_symbol'' seed_currency_symbol db;
                          db = add_setting now ''home_name'' ''Shared Home'' db
                      in db_commit db)
                else db)
      in committed db)"

subsection \<open>Users\<close>

definition get_users :: "User \<Rightarrow> session \<Rightarrow> User list" where
  "get_users current_user db = users (pending db)"

definition create_user :: "int \<Rightarrow> UserCreate \<Rightarrow> User \<Rightarrow> session \<Rightarrow> (HTTPException + User) \<times> session" where
  "create_user now user admin db =
     (case find (\<lambda>u. u_username u = uc_username user) (users (pending db)) of
        Some existing_user \<Rightarrow>
          (Inl (HTTPException HTTP_400_BAD_REQUEST ''Username already exists'' []), db)
      | None \<Rightarrow>
          (let (new_user, db) = add_user now user db;
               db = db_commit db
           in (Inr new_user, db)))"

definition delete_user :: "int \<Rightarrow> User \<Rightarrow> session \<Rightarrow> (HTTPException + string) \<times> session" where
  "delete_user user_id admin db =
     (case find (\<lambda>u. u_id u = user_id) (users (pending db)) of
        None \<Rightarrow> (Inl (HTTPException 404 ''User not found'' []), db)
      | Some user \<Rightarrow>
          (let d = pending db;
               db = db\<lparr>pending := d\<lparr>users := filter (\<lambda>u. u_id u \<noteq> u_id user) (users d)\<rparr>\<rparr>;
               db = db_commit db
           in (Inr ''User deleted successfully'', db)))"

subsection \<open>Categories\<close>

definition get_categories :: "User \<Rightarrow> session \<Rightarrow> Category list" where
  "get_categories current_user db = categories (pending db)"

definition create_category :: "int \<Rightarrow> CategoryCreate \<Rightarrow> User \<Rightarrow> session \<Rightarrow> (HTTPException + Category) \<times> session" where
  "create_category now category current_user db =
     (case find (\<lambda>c. c_name c = cc_name category) (categories (pending db)) of
        Some existing \<Rightarrow>
          (Inl (HTTPException HTTP_400_BAD_REQUEST ''Category already exists'' []), db)
      | None \<Rightarrow>
          (let (new_category, db) = add_category now category db;
               db = db_commit db
           in (Inr new_category, db)))"

definition delete_category :: "int \<Rightarrow> User \<Rightarrow> session \<Rightarrow> (HTTPException + string) \<times> session" where
  "delete_category category_id admin db =
     (case find (\<lambda>c. c_id c = category_id) (categories (pending db)) of
        None \<Rightarrow> (Inl (HTTPException 404 ''Category not found'' []), db)
      | Some category \<Rightarrow>
          (let d = pending db;
               db = db\<lparr>pending := d\<lparr>categories := filter (\<lambda>c. c_id c \<noteq> c_id category) (categories d)\<rparr>\<rparr>;
               db = db_commit db
           in (Inr ''Category deleted successfully'', db)))"

subsection \<open>Expenses\<close>

text \<open>
  \<open>if category_id:\<close> and its siblings test the truth value of an optional parameter:
  \<open>None\<close>, the integer 0 and the empty string are all false.
\<close>

text \<open>
  \<open>order_by(Expense.date.desc(), Expense.time.desc())\<close>: descending in the pair
  (date, time), strings compared character by character. SQL leaves the order of rows
  with equal keys open; the embedding lists them latest insertion first.
\<close>

definition order_key :: "Expense \<Rightarrow> string \<times> string" where
  "order_key e = (e_date e, e_time e)"

definition order_by_date_time_desc :: "Expense list \<Rightarrow> Expense list" where
  "order_by_date_time_desc query = rev (sort_key order_key query)"

definition get_expenses ::
  "int option \<Rightarrow> int option \<Rightarrow> string option \<Rightarrow> string option \<Rightarrow> string option \<Rightarrow>
   User \<Rightarrow> session \<Rightarrow> Expense list" where
  "get_expenses category_id paid_by payment_mode start_date end_date current_user db =
     (let query = expenses (pending db);
          query = (case category_id of
                     Some c \<Rightarrow> if c \<noteq> 0 then filter (\<lambda>e. e_category_id e = c) query else query
                   | None \<Rightarrow> query);
          query = (case paid_by of
                     Some p \<Rightarrow> if p \<noteq> 0 then filter (\<lambda>e. e_paid_by e = p) query else query
                   | None \<Rightarrow> query);
          query = (case payment_mode of
                     Some m \<Rightarrow> if m \<noteq> [] then filter (\<lambda>e. e_payment_mode e = m) query else query
                   | None \<Rightarrow> query);
          query = (case start_date of
                     Some s \<Rightarrow> if s \<noteq> [] then filter (\<lambda>e. e_date e \<ge> s) query else query
                   | None \<Rightarrow> query);
          query = (case end_date of
                     Some s \<Rightarrow> if s \<noteq> [] then filter (\<lambda>e. e_date e \<le> s) query else query
                   | None \<Rightarrow> query)
      in order_by_date_time_desc query)"

definition create_expense :: "int \<Rightarrow> ExpenseCreate \<Rightarrow> User \<Rightarrow> session \<Rightarrow> (HTTPException + Expense) \<times> session" where
  "create_expense now expense current_user db =
     (let (new_expense, db) = add_expense now expense db;
          db = db_commit db
      in (Inr new_expense, db))"

definition delete_expense :: "int \<Rightarrow> User \<Rightarrow> session \<Rightarrow> (HTTPException + string) \<times> session" where
  "delete_expense expense_id current_user db =
     (case find (\<lambda>e. e_id e = expense_id) (expenses (pending db)) of
        None \<Rightarrow> (Inl (HTTPException 404 ''Expense not found'' []), db)
      | Some expense \<Rightarrow>
          (let d = pending db;
               db = db\<lparr>pending := d\<lparr>expenses := filter (\<lambda>e. e_id e \<noteq> e_id expense) (expenses d)\<rparr>\<rparr>;
               db = db_commit db
           in (Inr ''Expense deleted successfully'', db)))"

subsection \<open>To-buy items\<close>

definition get_to_buy_items :: "bool option \<Rightarrow> User \<Rightarrow> session \<Rightarrow> ToBuyItem list" where
  "get_to_buy_items purchased current_user db =
     (let query = to_buy_items (pending db);
          query = (case purchased of
                     Some p \<Rightarrow> filter (\<lambda>t. t_purchased t = p) query
                   | None \<Rightarrow> query)
      in sort_key t_target_date query)"

definition create_to_buy_item :: "int \<Rightarrow> ToBuyItemCreate \<Rightarrow> User \<Rightarrow> session \<Rightarrow> (HTTPException + ToBuyItem) \<times> session" where
  "create_to_buy_item now item current_user db =
     (let (new_item, db) = add_to_buy_item now item (u_id current_user) db;
          db = db_commit db
      in (Inr new_item, db))"

text \<open>
  Assigning the five attributes of the loaded item marks them dirty; the next flush
  writes them to the row with the item's primary key.
\<close>

definition set_purchase :: "ToBuyItemPurchase \<Rightarrow> ToBuyItem \<Rightarrow> ToBuyItem" where
  "set_purchase purchase_info item =
     item\<lparr>t_purchased := True,
          t_purchased_by := Some (tp_purchased_by purchase_info),
          t_purchase_amount := Some (tp_purchase_amount purchase_info),
          t_purchase_payment_mode := Some (tp_purchase_payment_mode purchase_info),
          t_purchase_date := Some (tp_purchase_date purchase_info)\<rparr>"

definition mark_item_purchased ::
  "int \<Rightarrow> int \<Rightarrow> ToBuyItemPurchase \<Rightarrow> User \<Rightarrow> session \<Rightarrow> (HTTPException + ToBuyItem) \<times> session" where
  "mark_item_purchased now item_id purchase_info current_user db =
     (case find (\<lambda>t. t_id t = item_id) (to_buy_items (pending db)) of
        None \<Rightarrow> (Inl (HTTPException 404 ''Item not found'' []), db)
      | Some item \<Rightarrow>
          (let d = pending db;
               db = db\<lparr>pending := d\<lparr>to_buy_items :=
                      map (\<lambda>t. if t_id t = t_id item then set_purchase purchase_info t else t)
                        (to_buy_items d)\<rparr>\<rparr>;
               (category, db) =
                 (case find (\<lambda>c. c_name c = ''To-Buy Items'') (categories (pending db)) of
                    Some category \<Rightarrow> (category, db)
                  | None \<Rightarrow>
                      (let (category, db) = add_category now
                             \<lparr>cc_name = ''To-Buy Items'', cc_color = ''#6366f1''\<rparr> db;
                           db = db_commit db
                       in (category, db)));
               (expense, db) = add_expense now
                   \<lparr>ec_amount = tp_purchase_amount purchase_info,
                    ec_category_id = c_id category,
                    ec_payment_mode = tp_purchase_payment_mode purchase_info,
                    ec_paid_by = tp_purchased_by purchase_info,
                    ec_date = tp_purchase_date purchase_info,
                    ec_time = ''12:00'',
                    ec_description = Some (''Purchase: '' @ t_name item)\<rparr> db;
               db = db_commit db
           in (Inr (set_purchase purchase_info item), db)))"

definition delete_to_buy_item :: "int \<Rightarrow> User \<Rightarrow> session \<Rightarrow> (HTTPException + string) \<times> session" where
  "delete_to_buy_item item_id current_user db =
     (case find (\<lambda>t. t_id t = item_id) (to_buy_items (pending db)) of
        None \<Rightarrow> (Inl (HTTPException 404 ''Item not found'' []), db)
      | Some item \<Rightarrow>
          (let d = pending db;
               db = db\<lparr>pending := d\<lparr>to_buy_items := filter (\<lambda>t. t_id t \<noteq> t_id item) (to_buy_items d)\<rparr>\<rparr>;
               db = db_commit db
           in (Inr ''Item deleted successfully'', db)))"

subsection \<open>Settings\<close>

definition get_settings :: "User \<Rightarrow> session \<Rightarrow> (string \<rightharpoonup> string)" where
  "get_settings current_user db = map_of (rev (map (\<lambda>s. (s_key s, s_value s)) (settings (pending db))))"

text \<open>
  Assigning \<open>value\<close> on a loaded row: the flush writes the row (and \<open>onupdate\<close> stamps
  \<open>updated_at\<close>) only when the value differs from the loaded one.
\<close>

definition set_value :: "int \<Rightarrow> Settings \<Rightarrow> string \<Rightarrow> session \<Rightarrow> session" where
  "set_value now setting v db =
     (if s_value setting = v then db
      else (let d = pending db
            in db\<lparr>pending := d\<lparr>settings :=
                   map (\<lambda>s. if s_id s = s_id setting then s\<lparr>s_value := v, s_updated_at := now\<rparr> else s)
                     (settings d)\<rparr>\<rparr>))"

definition update_settings :: "int \<Rightarrow> SettingsUpdate \<Rightarrow> User \<Rightarrow> session \<Rightarrow> (HTTPException + string) \<times> session" where
  "update_settings now settings_upd admin db =
     (let db = (case find (\<lambda>s. s_key s = ''currency_symbol'') (settings (pending db)) of
                  Some currency_setting \<Rightarrow>
                    set_value now currency_setting (su_currency_symbol settings_upd) db
                | None \<Rightarrow> add_setting now ''currency_symbol'' (su_currency_symbol settings_upd) db);
          db = (case find (\<lambda>s. s_key s = ''home_name'') (settings (pending db)) of
                  Some home_setting \<Rightarrow>
                    set_value now home_setting (su_home_name settings_upd) db
                | None \<Rightarrow> add_setting now ''home_name'' (su_home_name settings_upd) db);
          db = db_commit db
      in (Inr ''Settings updated successfully'', db))"

subsection \<open>Requests\<close>

text \<open>
  FastAPI resolves the dependencies of an endpoint before it calls the function:
  \<open>get_db\<close> opens a session, \<open>get_current_user\<close> resolves the bearer token and, for the
  endpoints that ask for it, \<open>get_admin_user\<close> checks the role. An exception raised by a
  dependency is the response, and the endpoint function is not called. When the request
  ends the session is closed; what the database holds then is the durable state.
\<close>

definition with_current_user ::
  "string \<Rightarrow> int \<Rightarrow> token \<Rightarrow> database \<Rightarrow>
   (User \<Rightarrow> session \<Rightarrow> (HTTPException + 'a) \<times> session) \<Rightarrow> (HTTPException + 'a) \<times> database" where
  "with_current_user SECRET_KEY now credentials d endpoint =
     (let db = SessionLocal d in
      case get_current_user SECRET_KEY now credentials db of
        Inl e \<Rightarrow> (Inl e, d)
      | Inr current_user \<Rightarrow>
          (let (response, db) = endpoint current_user db in (response, committed db)))"

definition with_admin_user ::
  "string \<Rightarrow> int \<Rightarrow> token \<Rightarrow> database \<Rightarrow>
   (User \<Rightarrow> session \<Rightarrow> (HTTPException + 'a) \<times> session) \<Rightarrow> (HTTPException + 'a) \<times> database" where
  "with_admin_user SECRET_KEY now credentials d endpoint =
     (let db = SessionLocal d in
      case get_current_user SECRET_KEY now credentials db of
        Inl e \<Rightarrow> (Inl e, d)
      | Inr current_user \<Rightarrow>
          (case get_admin_user current_user of
             Inl e \<Rightarrow> (Inl e, d)
           | Inr admin \<Rightarrow>
               (let (response, db) = endpoint admin db in (response, committed db))))"

datatype request =
    POST_users UserCreate
  | DELETE_users int
  | POST_categories CategoryCreate
  | DELETE_categories int
  | POST_expenses ExpenseCreate
  | DELETE_expenses int
  | POST_to_buy ToBuyItemCreate
  | PATCH_to_buy_purchase int ToBuyItemPurchase
  | DELETE_to_buy int
  | PUT_settings SettingsUpdate

text \<open>The state of the database after a request (the routes that write).\<close>

fun serve :: "string \<Rightarrow> int \<Rightarrow> token \<Rightarrow> request \<Rightarrow> database \<Rightarrow> database" where
  "serve key now cred (POST_users user) d = snd (with_admin_user key now cred d (create_user now user))"
| "serve key now cred (DELETE_users user_id) d = snd (with_admin_user key now cred d (delete_user user_id))"
| "serve key now cred (POST_categories category) d = snd (with_current_user key now cred d (create_category now category))"
| "serve key now cred (DELETE_categories category_id) d = snd (with_admin_user key now cred d (delete_category category_id))"
| "serve key now cred (POST_expenses expense) d = snd (with_current_user key now cred d (create_expense now expense))"
| "serve key now cred (DELETE_expenses expense_id) d = snd (with_current_user key now cred d (delete_expense expense_id))"
| "serve key now cred (POST_to_buy item) d = snd (with_current_user key now cred d (create_to_buy_item now item))"
| "serve key now cred (PATCH_to_buy_purchase item_id purchase_info) d =
     snd (with_current_user key now cred d (mark_item_purchased now item_id purchase_info))"
| "serve key now cred (DELETE_to_buy item_id) d = snd (with_current_user key now cred d (delete_to_buy_item item_id))"
| "serve key now cred (PUT_settings settings_upd) d = snd (with_admin_user key now cred d (update_settings now settings_upd))"

text \<open>
  The states the application can bring an empty database to: the startup event and the
  writing routes, at any time, with any credentials and any request body.
\<close>

inductive reachable :: "string \<Rightarrow> database \<Rightarrow> bool" for key :: string where
  reachable_empty: "reachable key empty_database"
| reachable_startup: "reachable key d \<Longrightarrow> reachable key (startup_event now d)"
| reachable_serve: "reachable key d \<Longrightarrow> reachable key (serve key now cred req d)"

section \<open>Properties\<close>

subsection \<open>Predicates of the specification\<close>

text \<open>A date range, inclusive at both ends, in the order of the date strings.\<close>

definition within_range :: "string \<Rightarrow> string \<Rightarrow> Expense \<Rightarrow> bool" where
  "within_range start_date end_date e \<longleftrightarrow> start_date \<le> e_date e \<and> e_date e \<le> end_date"

text \<open>\<open>a\<close> may stand before \<open>b\<close> in a list ordered by date descending, then time descending.\<close>

definition date_time_desc :: "Expense \<Rightarrow> Expense \<Rightarrow> bool" where
  "date_time_desc a b \<longleftrightarrow>
     e_date b < e_date a \<or> (e_date b = e_date a \<and> e_time b \<le> e_time a)"

text \<open>
  No column links an expense to a to-buy item. The expense that corresponds to a
  purchased item is recognised by what \<open>mark_item_purchased\<close> writes into it: the four
  purchase fields of the item, the time 12:00 and the description made from the name.
\<close>

definition corresponds :: "ToBuyItem \<Rightarrow> Expense \<Rightarrow> bool" where
  "corresponds item e \<longleftrightarrow>
     t_purchased_by item = Some (e_paid_by e) \<and>
     t_purchase_amount item = Some (e_amount e) \<and>
     t_purchase_payment_mode item = Some (e_payment_mode e) \<and>
     t_purchase_date item = Some (e_date e) \<and>
     e_time e = ''12:00'' \<and>
     e_description e = Some (''Purchase: '' @ t_name item)"

definition one_expense_per_purchase :: "database \<Rightarrow> bool" where
  "one_expense_per_purchase d \<longleftrightarrow>
     (\<forall>item \<in> set (to_buy_items d).
        t_purchased item \<longrightarrow> length (filter (corresponds item) (expenses d)) = 1)"

definition purchases_recorded :: "database \<Rightarrow> bool" where
  "purchases_recorded d \<longleftrightarrow>
     (\<forall>item \<in> set (to_buy_items d).
        t_purchased item \<longrightarrow> (\<exists>e \<in> set (expenses d). corresponds item e))"

fun is_delete_expense :: "request \<Rightarrow> bool" where
  "is_delete_expense (DELETE_expenses expense_id) = True"
| "is_delete_expense req = False"

text \<open>The reachable states when no request deletes an expense.\<close>

inductive reachable_keeping_expenses :: "string \<Rightarrow> database \<Rightarrow> bool" for key :: string where
  keeping_empty: "reachable_keeping_expenses key empty_database"
| keeping_startup:
    "reachable_keeping_expenses key d \<Longrightarrow> reachable_keeping_expenses key (startup_event now d)"
| keeping_serve:
    "reachable_keeping_expenses key d \<Longrightarrow> \<not> is_delete_expense req \<Longrightarrow>
     reachable_keeping_expenses key (serve key now cred req d)"

text \<open>Primary keys of the to-buy items: distinct, and below the sequence.\<close>

definition item_keys_ok :: "database \<Rightarrow> bool" where
  "item_keys_ok d \<longleftrightarrow>
     distinct (map t_id (to_buy_items d)) \<and>
     (\<forall>t \<in> set (to_buy_items d). t_id t < to_buy_items_seq d)"

definition purchase_inv :: "database \<Rightarrow> bool" where
  "purchase_inv d \<longleftrightarrow> item_keys_ok d \<and> purchases_recorded d"

text \<open>The unique constraint of \<open>User.username\<close>.\<close>

definition usernames_unique :: "database \<Rightarrow> bool" where
  "usernames_unique d \<longleftrightarrow> distinct (map u_username (users d))"

subsection \<open>A household, for the concrete instances\<close>

definition example_key :: string where
  "example_key = ''household-secret''"

definition seeded :: database where
  "seeded = startup_event 0 empty_database"

definition admin_row :: User where
  "admin_row = \<lparr>u_id = 1, u_username = ''admin'', u_password = ''admin'',
     u_full_name = ''Home Admin'', u_role = ''admin'', u_created_at = 0\<rparr>"

definition user1_row :: User where
  "user1_row = \<lparr>u_id = 2, u_username = ''user1'', u_password = ''user1'',
     u_full_name = ''User One'', u_role = ''user'', u_created_at = 0\<rparr>"

definition user2_row :: User where
  "user2_row = \<lparr>u_id = 3, u_username = ''user2'', u_password = ''user2'',
     u_full_name = ''User Two'', u_role = ''user'', u_created_at = 0\<rparr>"

definition token_of :: "string \<Rightarrow> token" where
  "token_of username =
     create_access_token example_key 0 \<lparr>claim_sub = Some username, claim_exp = None\<rparr> None"

definition admin_token :: token where
  "admin_token = token_of ''admin''"

definition kettle :: ToBuyItemCreate where
  "kettle = \<lparr>tc_name = ''Kettle'', tc_quantity = Some ''1'', tc_target_date = ''2024-03-20'',
     tc_priority = ''medium'', tc_notes = None\<rparr>"

definition kettle_item :: ToBuyItem where
  "kettle_item = \<lparr>t_id = 1, t_name = ''Kettle'', t_quantity = Some ''1'',
     t_target_date = ''2024-03-20'', t_priority = ''medium'', t_notes = None, t_created_by = 1,
     t_purchased = False, t_purchased_by = None, t_purchase_amount = None,
     t_purchase_payment_mode = None, t_purchase_date = None, t_created_at = 10\<rparr>"

definition kettle_purchase :: ToBuyItemPurchase where
  "kettle_purchase = \<lparr>tp_purchased_by = 1, tp_purchase_amount = 1499,
     tp_purchase_payment_mode = ''card'', tp_purchase_date = ''2024-03-18''\<rparr>"

definition kettle_expense :: "int \<Rightarrow> int \<Rightarrow> Expense" where
  "kettle_expense i now = \<lparr>e_id = i, e_amount = 1499, e_category_id = 6,
     e_payment_mode = ''card'', e_paid_by = 1, e_date = ''2024-03-18'', e_time = ''12:00'',
     e_description = Some ''Purchase: Kettle'', e_created_at = now\<rparr>"

definition to_buy_category :: Category where
  "to_buy_category = \<lparr>c_id = 6, c_name = ''To-Buy Items'', c_color = ''#6366f1'',
     c_created_at = 50\<rparr>"

definition with_item :: database where
  "with_item = serve example_key 10 admin_token (POST_to_buy kettle) seeded"

definition purchased_db :: database where
  "purchased_db =
     serve example_key 50 admin_token (PATCH_to_buy_purchase 1 kettle_purchase) with_item"

definition expense_deleted :: database where
  "expense_deleted = serve example_key 60 admin_token (DELETE_expenses 1) purchased_db"

definition purchased_twice :: database where
  "purchased_twice =
     serve example_key 60 admin_token (PATCH_to_buy_purchase 1 kettle_purchase) purchased_db"

definition groceries :: Expense where
  "groceries = \<lparr>e_id = 1, e_amount = 250, e_category_id = 1, e_payment_mode = ''cash'',
     e_paid_by = 2, e_date = ''2024-03-15'', e_time = ''09:30'', e_description = None,
     e_created_at = 20\<rparr>"

definition rent :: Expense where
  "rent = \<lparr>e_id = 2, e_amount = 12000, e_category_id = 2, e_payment_mode = ''upi'',
     e_paid_by = 1, e_date = ''2024-03-01'', e_time = ''18:00'', e_description = Some ''March'',
     e_created_at = 21\<rparr>"

definition cinema :: Expense where
  "cinema = \<lparr>e_id = 3, e_amount = 600, e_category_id = 5, e_payment_mode = ''card'',
     e_paid_by = 3, e_date = ''2024-04-02'', e_time = ''21:15'', e_description = None,
     e_created_at = 22\<rparr>"

definition ledger :: database where
  "ledger = seeded\<lparr>expenses := [groceries, rent, cinema], expenses_seq := 4\<rparr>"

definition dangling_expense :: ExpenseCreate where
  "dangling_expense = \<lparr>ec_amount = 75, ec_category_id = 999, ec_payment_mode = ''cash'',
     ec_paid_by = 888, ec_date = ''2024-03-16'', ec_time = ''08:00'', ec_description = None\<rparr>"

subsection \<open>Lists and queries\<close>

lemma find_None_all: "find P xs = None \<longleftrightarrow> (\<forall>x \<in> set xs. \<not> P x)"
  by (induction xs) auto

lemma find_Some_mem: "find P xs = Some x \<Longrightarrow> x \<in> set xs \<and> P x"
  by (induction xs) (auto split: if_splits)

lemma find_distinct_key:
  "distinct (map f xs) \<Longrightarrow> x \<in> set xs \<Longrightarrow> find (\<lambda>y. f y = f x) xs = Some x"
  by (induction xs) (auto simp: image_iff)

lemma find_map_update:
  assumes "\<And>t. f (g t) = f t"
  shows "find (\<lambda>t. f t = i) (map (\<lambda>t. if f t = i then g t else t) xs) =
         map_option g (find (\<lambda>t. f t = i) xs)"
  using assms by (induction xs) auto

lemma find_append_new:
  "find P (xs @ [x]) =
     (case find P xs of Some y \<Rightarrow> Some y | None \<Rightarrow> if P x then Some x else None)"
  by (induction xs) auto

lemma t_id_set_purchase: "t_id (set_purchase p t) = t_id t"
  by (simp add: set_purchase_def)

subsection \<open>The seeded household\<close>

lemma seeded_users: "users seeded = [admin_row, user1_row, user2_row]"
  by (simp add: seeded_def startup_event_def SessionLocal_def add_user_def add_category_def
      add_setting_def db_commit_def Let_def empty_database_def admin_row_def user1_row_def
      user2_row_def)

lemma seeded_tables:
  "to_buy_items seeded = [] \<and> expenses seeded = [] \<and> to_buy_items_seq seeded = 1
   \<and> expenses_seq seeded = 1 \<and> categories_seq seeded = 6
   \<and> map c_name (categories seeded) =
       [''Groceries'', ''Rent'', ''Utilities'', ''Transportation'', ''Entertainment'']"
  by (simp add: seeded_def startup_event_def SessionLocal_def add_user_def add_category_def
      add_setting_def db_commit_def Let_def empty_database_def)

lemma seeded_no_to_buy_category:
  "find (\<lambda>c. c_name c = ''To-Buy Items'') (categories seeded) = None"
  by (simp add: seeded_def startup_event_def SessionLocal_def add_user_def add_category_def
      add_setting_def db_commit_def Let_def empty_database_def)

lemma token_of_eq:
  "token_of username = JWT ''HS256'' \<lparr>claim_sub = Some username, claim_exp = Some 86400\<rparr> example_key"
  by (simp add: token_of_def create_access_token_def jwt_encode_def ALGORITHM_def
      ACCESS_TOKEN_EXPIRE_HOURS_def timedelta_hours_def Let_def)

lemma admin_resolves:
  "users (pending db) = users seeded \<Longrightarrow> now < 86400 \<Longrightarrow>
   get_current_user example_key now admin_token db = Inr admin_row"
  by (simp add: get_current_user_def decode_access_token_def admin_token_def token_of_eq
      ALGORITHM_def seeded_users admin_row_def)

lemma user1_resolves:
  "users (pending db) = users seeded \<Longrightarrow> now < 86400 \<Longrightarrow>
   get_current_user example_key now (token_of ''user1'') db = Inr user1_row"
  by (simp add: get_current_user_def decode_access_token_def token_of_eq
      ALGORITHM_def seeded_users admin_row_def user1_row_def)

subsection \<open>Authentication\<close>

text \<open>
  C4. \<open>login\<close> succeeds exactly when a stored user has the submitted username and a stored
  password equal to the submitted one, compared as plain strings. On success the token
  is signed with the secret, carries that username as \<open>sub\<close> and expires 24 hours after
  the time of the call, and the response carries a stored user with these credentials.
  When no stored user matches, the result is the 401 error "Invalid credentials".
\<close>

theorem login_succeeds_iff_credentials_match:
  "((\<exists>r. login key now user_login db = Inr r) \<longleftrightarrow>
      (\<exists>u \<in> set (users (pending db)).
         u_username u = ul_username user_login \<and> u_password u = ul_password user_login))
   \<and> (\<forall>r. login key now user_login db = Inr r \<longrightarrow>
         access_token r =
           JWT ''HS256'' \<lparr>claim_sub = Some (ul_username user_login),
                          claim_exp = Some (now + 24 * 3600)\<rparr> key
         \<and> u_username (tr_user r) = ul_username user_login
         \<and> u_password (tr_user r) = ul_password user_login
         \<and> tr_user r \<in> set (users (pending db)))
   \<and> ((\<forall>u \<in> set (users (pending db)).
          \<not> (u_username u = ul_username user_login \<and> u_password u = ul_password user_login)) \<longrightarrow>
        login key now user_login db =
          Inl (HTTPException HTTP_401_UNAUTHORIZED ''Invalid credentials'' []))"
proof -
  let ?P = "\<lambda>u. u_username u = ul_username user_login \<and> u_password u = ul_password user_login"
  show ?thesis
  proof (cases "find ?P (users (pending db))")
    case None
    then have "\<forall>u \<in> set (users (pending db)). \<not> ?P u"
      by (simp add: find_None_all)
    with None show ?thesis
      by (auto simp: login_def)
  next
    case (Some u)
    then have "u \<in> set (users (pending db)) \<and> ?P u"
      by (rule find_Some_mem)
    with Some show ?thesis
      by (auto simp: login_def create_access_token_def jwt_encode_def ALGORITHM_def
          ACCESS_TOKEN_EXPIRE_HOURS_def timedelta_hours_def Let_def)
  qed
qed

theorem login_succeeds_iff_credentials_match_witness:
  "(\<exists>r. login example_key 100 \<lparr>ul_username = ''user1'', ul_password = ''user1''\<rparr>
          (SessionLocal seeded) = Inr r
        \<and> access_token r =
            JWT ''HS256'' \<lparr>claim_sub = Some ''user1'', claim_exp = Some 86500\<rparr> example_key)
   \<and> login example_key 100 \<lparr>ul_username = ''user1'', ul_password = ''admin''\<rparr>
        (SessionLocal seeded) =
      Inl (HTTPException HTTP_401_UNAUTHORIZED ''Invalid credentials'' [])"
proof -
  have stored: "\<exists>u \<in> set (users (pending (SessionLocal seeded))).
      u_username u = ul_username \<lparr>ul_username = ''user1'', ul_password = ''user1''\<rparr>
      \<and> u_password u = ul_password \<lparr>ul_username = ''user1'', ul_password = ''user1''\<rparr>"
    by (simp add: SessionLocal_def seeded_users admin_row_def user1_row_def user2_row_def)
  have absent: "\<forall>u \<in> set (users (pending (SessionLocal seeded))).
      \<not> (u_username u = ul_username \<lparr>ul_username = ''user1'', ul_password = ''admin''\<rparr>
         \<and> u_password u = ul_password \<lparr>ul_username = ''user1'', ul_password = ''admin''\<rparr>)"
    by (simp add: SessionLocal_def seeded_users admin_row_def user1_row_def user2_row_def)
  from stored
    login_succeeds_iff_credentials_match
      [of example_key 100 "\<lparr>ul_username = ''user1'', ul_password = ''user1''\<rparr>" "SessionLocal seeded"]
  have "\<exists>r. login example_key 100 \<lparr>ul_username = ''user1'', ul_password = ''user1''\<rparr>
          (SessionLocal seeded) = Inr r
        \<and> access_token r =
            JWT ''HS256'' \<lparr>claim_sub = Some ''user1'', claim_exp = Some 86500\<rparr> example_key"
    by auto
  moreover from absent
    login_succeeds_iff_credentials_match
      [of example_key 100 "\<lparr>ul_username = ''user1'', ul_password = ''admin''\<rparr>" "SessionLocal seeded"]
  have "login example_key 100 \<lparr>ul_username = ''user1'', ul_password = ''admin''\<rparr>
        (SessionLocal seeded) =
      Inl (HTTPException HTTP_401_UNAUTHORIZED ''Invalid credentials'' [])"
    by blast
  ultimately show ?thesis by blast
qed

text \<open>
  C5. Round trip. Usernames are unique in the table (the column is declared unique and
  \<open>create_user\<close> refuses a second user of the same name). For a stored user and the
  matching credentials, \<open>login\<close> succeeds with that user, and \<open>get_current_user\<close> on the
  issued token, at once or at any time before the token expires, returns the same row.
\<close>

theorem login_then_get_current_user:
  assumes "distinct (map u_username (users (pending db)))"
    and "u \<in> set (users (pending db))"
    and "u_username u = ul_username user_login"
    and "u_password u = ul_password user_login"
    and "now' < now + 24 * 3600"
  shows "\<exists>r. login key now user_login db = Inr r \<and> tr_user r = u
           \<and> get_current_user key now' (access_token r) db = Inr u"
proof -
  let ?P = "\<lambda>y. u_username y = ul_username user_login \<and> u_password y = ul_password user_login"
  have by_name: "find (\<lambda>y. u_username y = u_username u) (users (pending db)) = Some u"
    using assms(1,2) by (rule find_distinct_key)
  obtain v where v: "find ?P (users (pending db)) = Some v"
    using assms(2,3,4) by (cases "find ?P (users (pending db))") (auto simp: find_None_all)
  from find_Some_mem[OF v] assms(3)
  have "v \<in> set (users (pending db))" and "u_username v = u_username u"
    by auto
  with assms(1,2) have "v = u"
    by (metis distinct_map inj_on_def)
  with v by_name assms(3,5) show ?thesis
    by (simp add: login_def get_current_user_def decode_access_token_def
        create_access_token_def jwt_encode_def ALGORITHM_def ACCESS_TOKEN_EXPIRE_HOURS_def
        timedelta_hours_def Let_def)
qed

theorem login_then_get_current_user_witness:
  "distinct (map u_username (users (pending (SessionLocal seeded))))
   \<and> user2_row \<in> set (users (pending (SessionLocal seeded)))
   \<and> (\<exists>r. login example_key 100 \<lparr>ul_username = ''user2'', ul_password = ''user2''\<rparr>
             (SessionLocal seeded) = Inr r
          \<and> tr_user r = user2_row
          \<and> get_current_user example_key 100 (access_token r) (SessionLocal seeded) = Inr user2_row)"
proof -
  have h1: "distinct (map u_username (users (pending (SessionLocal seeded))))"
    by (simp add: SessionLocal_def seeded_users admin_row_def user1_row_def user2_row_def)
  have h2: "user2_row \<in> set (users (pending (SessionLocal seeded)))"
    by (simp add: SessionLocal_def seeded_users)
  have h3: "u_username user2_row = ul_username \<lparr>ul_username = ''user2'', ul_password = ''user2''\<rparr>"
    by (simp add: user2_row_def)
  have h4: "u_password user2_row = ul_password \<lparr>ul_username = ''user2'', ul_password = ''user2''\<rparr>"
    by (simp add: user2_row_def)
  have h5: "(100::int) < 100 + 24 * 3600" by simp
  from login_then_get_current_user[OF h1 h2 h3 h4 h5, of example_key] h1 h2
  show ?thesis by simp
qed

text \<open>
  C6. \<open>get_current_user\<close> answers 401 Unauthorized, with the \<open>WWW-Authenticate\<close> header,
  in each of these cases: the token was issued with the default lifetime more than 24
  hours before the call; the token was signed with another key; the token is valid but
  no stored user has the username it carries. The detail text is
  "Invalid or expired token" in the first two cases and "User not found" in the third.
\<close>

theorem get_current_user_rejects:
  "(24 * 3600 < now - issued \<longrightarrow>
      get_current_user key now (create_access_token key issued data None) db =
        Inl (HTTPException HTTP_401_UNAUTHORIZED ''Invalid or expired token''
               [(''WWW-Authenticate'', ''Bearer'')]))
   \<and> (k \<noteq> key \<longrightarrow>
      get_current_user key now (JWT alg payload k) db =
        Inl (HTTPException HTTP_401_UNAUTHORIZED ''Invalid or expired token''
               [(''WWW-Authenticate'', ''Bearer'')]))
   \<and> (decode_access_token key now tok = Some username \<and>
       (\<forall>u \<in> set (users (pending db)). u_username u \<noteq> username) \<longrightarrow>
      get_current_user key now tok db =
        Inl (HTTPException HTTP_401_UNAUTHORIZED ''User not found''
               [(''WWW-Authenticate'', ''Bearer'')]))"
proof (intro conjI impI)
  assume "24 * 3600 < now - issued"
  then show "get_current_user key now (create_access_token key issued data None) db =
        Inl (HTTPException HTTP_401_UNAUTHORIZED ''Invalid or expired token''
               [(''WWW-Authenticate'', ''Bearer'')])"
    by (simp add: get_current_user_def decode_access_token_def create_access_token_def
        jwt_encode_def ALGORITHM_def ACCESS_TOKEN_EXPIRE_HOURS_def timedelta_hours_def Let_def)
next
  assume "k \<noteq> key"
  then show "get_current_user key now (JWT alg payload k) db =
        Inl (HTTPException HTTP_401_UNAUTHORIZED ''Invalid or expired token''
               [(''WWW-Authenticate'', ''Bearer'')])"
    by (simp add: get_current_user_def decode_access_token_def)
next
  assume a: "decode_access_token key now tok = Some username \<and>
       (\<forall>u \<in> set (users (pending db)). u_username u \<noteq> username)"
  then have "find (\<lambda>u. u_username u = username) (users (pending db)) = None"
    by (simp add: find_None_all)
  with a show "get_current_user key now tok db =
        Inl (HTTPException HTTP_401_UNAUTHORIZED ''User not found''
               [(''WWW-Authenticate'', ''Bearer'')])"
    by (simp add: get_current_user_def)
qed

theorem get_current_user_rejects_witness:
  "get_current_user example_key 86401 (token_of ''admin'') (SessionLocal seeded) =
     Inl (HTTPException HTTP_401_UNAUTHORIZED ''Invalid or expired token''
            [(''WWW-Authenticate'', ''Bearer'')])
   \<and> get_current_user example_key 100
       (JWT ''HS256'' \<lparr>claim_sub = Some ''admin'', claim_exp = Some 86400\<rparr> ''another-secret'')
       (SessionLocal seeded) =
     Inl (HTTPException HTTP_401_UNAUTHORIZED ''Invalid or expired token''
            [(''WWW-Authenticate'', ''Bearer'')])
   \<and> get_current_user example_key 100 (token_of ''guest'') (SessionLocal seeded) =
     Inl (HTTPException HTTP_401_UNAUTHORIZED ''User not found''
            [(''WWW-Authenticate'', ''Bearer'')])"
proof -
  have old: "24 * 3600 < (86401::int) - 0" by simp
  have other: "''another-secret'' \<noteq> example_key" by (simp add: example_key_def)
  have unknown: "decode_access_token example_key 100 (token_of ''guest'') = Some ''guest'' \<and>
      (\<forall>u \<in> set (users (pending (SessionLocal seeded))). u_username u \<noteq> ''guest'')"
    by (simp add: decode_access_token_def token_of_eq ALGORITHM_def SessionLocal_def seeded_users
        admin_row_def user1_row_def user2_row_def)
  from old other unknown
    get_current_user_rejects
      [of 86401 0 example_key "\<lparr>claim_sub = Some ''admin'', claim_exp = None\<rparr>"
          "SessionLocal seeded"]
    get_current_user_rejects
      [of 100 0 example_key _ "SessionLocal seeded" "''another-secret''" "''HS256''"
          "\<lparr>claim_sub = Some ''admin'', claim_exp = Some 86400\<rparr>"]
    get_current_user_rejects
      [of 100 0 example_key _ "SessionLocal seeded" _ _ _ "token_of ''guest''" "''guest''"]
  show ?thesis
    by (simp add: token_of_def)
qed

text \<open>
  C8. When the bearer token resolves to a user whose role is not "admin", each of the four
  admin-only routes (create user, delete user, delete category, update settings) answers
  403 Forbidden "Admin access required" and leaves the database as it was, whatever the
  request carries.
\<close>

theorem non_admin_is_forbidden:
  assumes "get_current_user key now credentials (SessionLocal d) = Inr current_user"
    and "u_role current_user \<noteq> ''admin''"
  shows "with_admin_user key now credentials d (create_user now user) =
           (Inl (HTTPException HTTP_403_FORBIDDEN ''Admin access required'' []), d)
       \<and> with_admin_user key now credentials d (delete_user user_id) =
           (Inl (HTTPException HTTP_403_FORBIDDEN ''Admin access required'' []), d)
       \<and> with_admin_user key now credentials d (delete_category category_id) =
           (Inl (HTTPException HTTP_403_FORBIDDEN ''Admin access required'' []), d)
       \<and> with_admin_user key now credentials d (update_settings now settings_upd) =
           (Inl (HTTPException HTTP_403_FORBIDDEN ''Admin access required'' []), d)
       \<and> serve key now credentials (POST_users user) d = d
       \<and> serve key now credentials (DELETE_users user_id) d = d
       \<and> serve key now credentials (DELETE_categories category_id) d = d
       \<and> serve key now credentials (PUT_settings settings_upd) d = d"
  using assms by (simp add: with_admin_user_def get_admin_user_def)

theorem non_admin_is_forbidden_witness:
  "get_current_user example_key 100 (token_of ''user1'') (SessionLocal seeded) = Inr user1_row
   \<and> u_role user1_row \<noteq> ''admin''
   \<and> with_admin_user example_key 100 (token_of ''user1'') seeded (delete_user 1) =
       (Inl (HTTPException HTTP_403_FORBIDDEN ''Admin access required'' []), seeded)
   \<and> with_admin_user example_key 100 (token_of ''user1'') seeded
        (create_user 100 \<lparr>uc_username = ''mallory'', uc_password = ''m'', uc_full_name = ''M'',
                          uc_role = ''admin''\<rparr>) =
       (Inl (HTTPException HTTP_403_FORBIDDEN ''Admin access required'' []), seeded)"
proof -
  have h1: "get_current_user example_key 100 (token_of ''user1'') (SessionLocal seeded) = Inr user1_row"
    by (simp add: user1_resolves SessionLocal_def)
  have h2: "u_role user1_row \<noteq> ''admin''"
    by (simp add: user1_row_def)
  from non_admin_is_forbidden[OF h1 h2] h1 h2 show ?thesis
    by simp
qed

subsection \<open>Listing expenses\<close>

lemma order_by_date_time_desc_sorted: "sorted_wrt date_time_desc (order_by_date_time_desc xs)"
proof -
  have "sorted (map order_key (sort_key order_key xs))"
    by (rule sorted_sort_key)
  then have "sorted_wrt (\<lambda>a b. order_key a \<le> order_key b) (sort_key order_key xs)"
    by (simp add: sorted_map)
  then have "sorted_wrt (\<lambda>a b. order_key b \<le> order_key a) (rev (sort_key order_key xs))"
    by (simp add: sorted_wrt_rev)
  then show ?thesis
    unfolding order_by_date_time_desc_def
    by (rule sorted_wrt_mono_rel[rotated])
       (auto simp: date_time_desc_def order_key_def less_eq_prod_def)
qed

lemma order_by_date_time_desc_mset: "mset (order_by_date_time_desc xs) = mset xs"
  by (simp add: order_by_date_time_desc_def)

lemma ledger_expenses: "expenses (pending (SessionLocal ledger)) = [groceries, rent, cinema]"
  by (simp add: ledger_def SessionLocal_def)

text \<open>
  C7, as the specification states it, for every supplied range: refuted by the range
  from 2024-03-01 to the empty string. No date is at most the empty string, so the
  stated result is empty; \<open>get_expenses\<close> ignores the empty end date and returns the three
  expenses on or after the start date.
\<close>

theorem get_expenses_empty_end_date_counterexample:
  "filter (within_range ''2024-03-01'' '''') (expenses (pending (SessionLocal ledger))) = []
   \<and> get_expenses None None None (Some ''2024-03-01'') (Some '''') admin_row (SessionLocal ledger) =
       [cinema, groceries, rent]"
  by (simp add: get_expenses_def Let_def order_by_date_time_desc_def ledger_expenses
      within_range_def order_key_def groceries_def rent_def cinema_def)

text \<open>
  C7, amended. For a start date and a non-empty end date, with each of the other three
  filters absent or supplied with a value that is not 0 and not the empty string,
  \<open>get_expenses\<close> returns exactly the stored expenses whose date lies in the range, both
  ends included, and that agree with every other supplied filter, each as often as it
  is stored, ordered by date descending and then time descending.
\<close>

theorem get_expenses_date_range:
  assumes "end_date \<noteq> []" and "category_id \<noteq> Some 0" and "paid_by \<noteq> Some 0"
    and "payment_mode \<noteq> Some []"
  shows "mset (get_expenses category_id paid_by payment_mode (Some start_date) (Some end_date)
                 current_user db) =
           mset (filter (\<lambda>e. within_range start_date end_date e
                            \<and> (\<forall>c. category_id = Some c \<longrightarrow> e_category_id e = c)
                            \<and> (\<forall>p. paid_by = Some p \<longrightarrow> e_paid_by e = p)
                            \<and> (\<forall>m. payment_mode = Some m \<longrightarrow> e_payment_mode e = m))
                   (expenses (pending db)))
       \<and> sorted_wrt date_time_desc
           (get_expenses category_id paid_by payment_mode (Some start_date) (Some end_date)
              current_user db)"
proof (intro conjI)
  show "mset (get_expenses category_id paid_by payment_mode (Some start_date) (Some end_date)
                 current_user db) =
           mset (filter (\<lambda>e. within_range start_date end_date e
                            \<and> (\<forall>c. category_id = Some c \<longrightarrow> e_category_id e = c)
                            \<and> (\<forall>p. paid_by = Some p \<longrightarrow> e_paid_by e = p)
                            \<and> (\<forall>m. payment_mode = Some m \<longrightarrow> e_payment_mode e = m))
                   (expenses (pending db)))"
    using assms
    by (cases category_id; cases paid_by; cases payment_mode; cases "start_date = []")
       (auto simp: get_expenses_def order_by_date_time_desc_mset within_range_def Let_def
             intro!: filter_mset_cong)
next
  show "sorted_wrt date_time_desc
           (get_expenses category_id paid_by payment_mode (Some start_date) (Some end_date)
              current_user db)"
    by (simp add: get_expenses_def Let_def order_by_date_time_desc_sorted)
qed

theorem get_expenses_date_range_witness:
  "''2024-03-31'' \<noteq> [] \<and> Some ''upi'' \<noteq> Some []
   \<and> mset (get_expenses None None None (Some ''2024-03-01'') (Some ''2024-03-31'') admin_row
              (SessionLocal ledger)) = {#groceries, rent#}
   \<and> sorted_wrt date_time_desc
        (get_expenses None None None (Some ''2024-03-01'') (Some ''2024-03-31'') admin_row
           (SessionLocal ledger))
   \<and> mset (get_expenses None None (Some ''upi'') (Some ''2024-03-01'') (Some ''2024-03-31'')
              admin_row (SessionLocal ledger)) = {#rent#}"
proof -
  have h1: "''2024-03-31'' \<noteq> []" by simp
  have h2: "(None :: int option) \<noteq> Some 0" by simp
  have h3: "(None :: string option) \<noteq> Some []" by simp
  have h4: "Some ''upi'' \<noteq> Some []" by simp
  from get_expenses_date_range[OF h1 h2 h2 h3, of "''2024-03-01''" admin_row "SessionLocal ledger"]
    get_expenses_date_range[OF h1 h2 h2 h4, of "''2024-03-01''" admin_row "SessionLocal ledger"]
  show ?thesis
    by (simp add: ledger_expenses within_range_def groceries_def rent_def cinema_def)
qed

text \<open>
  C9. The filters of \<open>get_expenses\<close> are applied by truth value: a category or payer of 0,
  or an empty payment mode, start date or end date, gives the same list as leaving the
  filter out. Listing with the empty end date alone returns every stored expense.
\<close>

theorem get_expenses_filters_by_truthiness:
  "get_expenses (Some 0) paid_by payment_mode start_date end_date current_user db =
     get_expenses None paid_by payment_mode start_date end_date current_user db
   \<and> get_expenses category_id (Some 0) payment_mode start_date end_date current_user db =
     get_expenses category_id None payment_mode start_date end_date current_user db
   \<and> get_expenses category_id paid_by (Some '''') start_date end_date current_user db =
     get_expenses category_id paid_by None start_date end_date current_user db
   \<and> get_expenses category_id paid_by payment_mode (Some '''') end_date current_user db =
     get_expenses category_id paid_by payment_mode None end_date current_user db
   \<and> get_expenses category_id paid_by payment_mode start_date (Some '''') current_user db =
     get_expenses category_id paid_by payment_mode start_date None current_user db
   \<and> get_expenses None None None None (Some '''') current_user db =
     order_by_date_time_desc (expenses (pending db))
   \<and> mset (get_expenses None None None None (Some '''') current_user db) =
     mset (expenses (pending db))"
  by (simp add: get_expenses_def Let_def order_by_date_time_desc_mset)

text \<open>
  C10. \<open>create_expense\<close> looks up neither the category nor the payer. Whatever
  \<open>category_id\<close> and \<open>paid_by\<close> the body carries, it returns the new row, built from the body
  with the next primary key, and commits the table with that row appended; it has no
  path that raises an HTTP error.
\<close>

theorem create_expense_no_referential_check:
  "fst (create_expense now expense current_user (SessionLocal d)) =
     Inr \<lparr>e_id = expenses_seq d, e_amount = ec_amount expense,
          e_category_id = ec_category_id expense, e_payment_mode = ec_payment_mode expense,
          e_paid_by = ec_paid_by expense, e_date = ec_date expense, e_time = ec_time expense,
          e_description = ec_description expense, e_created_at = now\<rparr>
   \<and> committed (snd (create_expense now expense current_user (SessionLocal d))) =
     d\<lparr>expenses := expenses d @
          [\<lparr>e_id = expenses_seq d, e_amount = ec_amount expense,
            e_category_id = ec_category_id expense, e_payment_mode = ec_payment_mode expense,
            e_paid_by = ec_paid_by expense, e_date = ec_date expense, e_time = ec_time expense,
            e_description = ec_description expense, e_created_at = now\<rparr>],
        expenses_seq := expenses_seq d + 1\<rparr>"
  by (simp add: create_expense_def add_expense_def Let_def SessionLocal_def db_commit_def)

lemma create_expense_dangling_example:
  "find (\<lambda>c. c_id c = ec_category_id dangling_expense) (categories seeded) = None
   \<and> find (\<lambda>u. u_id u = ec_paid_by dangling_expense) (users seeded) = None
   \<and> expenses (committed (snd (create_expense 70 dangling_expense admin_row (SessionLocal seeded)))) =
       [\<lparr>e_id = 1, e_amount = 75, e_category_id = 999, e_payment_mode = ''cash'',
         e_paid_by = 888, e_date = ''2024-03-16'', e_time = ''08:00'', e_description = None,
         e_created_at = 70\<rparr>]"
  by (simp add: create_expense_def add_expense_def Let_def SessionLocal_def db_commit_def
      seeded_users seeded_tables admin_row_def user1_row_def user2_row_def dangling_expense_def
      seeded_def startup_event_def add_user_def add_category_def add_setting_def
      empty_database_def)

subsection \<open>Marking a to-buy item purchased\<close>

lemma with_item_eq: "with_item = seeded\<lparr>to_buy_items := [kettle_item], to_buy_items_seq := 2\<rparr>"
  by (simp add: with_item_def with_current_user_def admin_resolves create_to_buy_item_def
      add_to_buy_item_def db_commit_def SessionLocal_def Let_def seeded_tables kettle_def
      kettle_item_def admin_row_def)

lemma purchased_db_eq:
  "purchased_db =
     seeded\<lparr>to_buy_items := [set_purchase kettle_purchase kettle_item], to_buy_items_seq := 2,
            categories := categories seeded @ [to_buy_category], categories_seq := 7,
            expenses := [kettle_expense 1 50], expenses_seq := 2\<rparr>"
  by (simp add: purchased_db_def with_item_eq with_current_user_def admin_resolves
      mark_item_purchased_def add_category_def add_expense_def seeded_no_to_buy_category
      db_commit_def SessionLocal_def Let_def seeded_tables kettle_purchase_def kettle_item_def
      kettle_expense_def to_buy_category_def)

lemma expense_deleted_eq: "expense_deleted = purchased_db\<lparr>expenses := []\<rparr>"
  by (simp add: expense_deleted_def purchased_db_eq with_current_user_def admin_resolves
      delete_expense_def db_commit_def SessionLocal_def Let_def kettle_expense_def)

lemma purchased_twice_eq:
  "purchased_twice =
     purchased_db\<lparr>expenses := [kettle_expense 1 50, kettle_expense 2 60], expenses_seq := 3\<rparr>"
  by (simp add: purchased_twice_def purchased_db_eq with_current_user_def admin_resolves
      mark_item_purchased_def add_expense_def seeded_no_to_buy_category to_buy_category_def
      find_append_new db_commit_def SessionLocal_def Let_def seeded_tables kettle_purchase_def
      kettle_item_def kettle_expense_def set_purchase_def)

text \<open>
  C1. For a to-buy item that exists and is not yet purchased, \<open>mark_item_purchased\<close>
  returns the item, and in the committed state the item is purchased with the four
  purchase fields equal to the inputs; the expense table is the old one with exactly one
  row appended, whose amount, payment mode, payer and date are the inputs, whose time is
  "12:00", whose description is "Purchase: " followed by the item's name and whose
  category is the category named "To-Buy Items". That category is the stored one when it
  exists; otherwise it is appended with the colour "#6366f1".
\<close>

theorem mark_item_purchased_updates_item_and_adds_expense:
  assumes "find (\<lambda>t. t_id t = item_id) (to_buy_items d) = Some item"
    and "\<not> t_purchased item"
  shows "\<exists>db' item' e c.
      mark_item_purchased now item_id purchase_info current_user (SessionLocal d) = (Inr item', db')
    \<and> find (\<lambda>t. t_id t = item_id) (to_buy_items (committed db')) = Some item'
    \<and> t_purchased item'
    \<and> t_purchased_by item' = Some (tp_purchased_by purchase_info)
    \<and> t_purchase_amount item' = Some (tp_purchase_amount purchase_info)
    \<and> t_purchase_payment_mode item' = Some (tp_purchase_payment_mode purchase_info)
    \<and> t_purchase_date item' = Some (tp_purchase_date purchase_info)
    \<and> expenses (committed db') = expenses d @ [e]
    \<and> e_amount e = tp_purchase_amount purchase_info
    \<and> e_payment_mode e = tp_purchase_payment_mode purchase_info
    \<and> e_paid_by e = tp_purchased_by purchase_info
    \<and> e_date e = tp_purchase_date purchase_info
    \<and> e_time e = ''12:00''
    \<and> e_description e = Some (''Purchase: '' @ t_name item)
    \<and> e_category_id e = c_id c
    \<and> find (\<lambda>c. c_name c = ''To-Buy Items'') (categories (committed db')) = Some c
    \<and> (case find (\<lambda>c. c_name c = ''To-Buy Items'') (categories d) of
          Some existing \<Rightarrow> categories (committed db') = categories d
        | None \<Rightarrow> categories (committed db') = categories d @
            [\<lparr>c_id = categories_seq d, c_name = ''To-Buy Items'', c_color = ''#6366f1'',
              c_created_at = now\<rparr>])"
proof -
  from find_Some_mem[OF assms(1)] have id: "t_id item = item_id"
    by simp
  have upd: "find (\<lambda>t. t_id t = item_id)
        (map (\<lambda>t. if t_id t = item_id then set_purchase purchase_info t else t) (to_buy_items d)) =
      Some (set_purchase purchase_info item)"
    using find_map_update[of t_id "set_purchase purchase_info" item_id "to_buy_items d"] assms(1)
    by (simp add: t_id_set_purchase)
  show ?thesis
  proof (cases "find (\<lambda>c. c_name c = ''To-Buy Items'') (categories d)")
    case None
    with assms(1) id upd show ?thesis
      by (simp add: mark_item_purchased_def SessionLocal_def add_category_def add_expense_def
          db_commit_def Let_def find_append_new set_purchase_def)
  next
    case (Some c)
    with assms(1) id upd show ?thesis
      by (simp add: mark_item_purchased_def SessionLocal_def add_expense_def
          db_commit_def Let_def set_purchase_def)
  qed
qed

theorem mark_item_purchased_updates_item_and_adds_expense_witness:
  "find (\<lambda>t. t_id t = 1) (to_buy_items with_item) = Some kettle_item
   \<and> \<not> t_purchased kettle_item
   \<and> (\<exists>db' item' e.
        mark_item_purchased 50 1 kettle_purchase admin_row (SessionLocal with_item) = (Inr item', db')
      \<and> t_purchased item'
      \<and> t_purchase_amount item' = Some 1499
      \<and> expenses (committed db') = [e]
      \<and> e_amount e = 1499 \<and> e_time e = ''12:00''
      \<and> e_description e = Some ''Purchase: Kettle''
      \<and> categories (committed db') = categories seeded @
           [\<lparr>c_id = 6, c_name = ''To-Buy Items'', c_color = ''#6366f1'', c_created_at = 50\<rparr>])"
proof -
  have h1: "find (\<lambda>t. t_id t = 1) (to_buy_items with_item) = Some kettle_item"
    by (simp add: with_item_eq kettle_item_def)
  have h2: "\<not> t_purchased kettle_item"
    by (simp add: kettle_item_def)
  have none: "find (\<lambda>c. c_name c = ''To-Buy Items'') (categories with_item) = None"
    by (simp add: with_item_eq seeded_no_to_buy_category)
  from mark_item_purchased_updates_item_and_adds_expense
         [OF h1 h2, of 50 kettle_purchase admin_row]
  obtain db' item' e where
    "mark_item_purchased 50 1 kettle_purchase admin_row (SessionLocal with_item) = (Inr item', db')"
    "t_purchased item'"
    "t_purchase_amount item' = Some (tp_purchase_amount kettle_purchase)"
    "expenses (committed db') = expenses with_item @ [e]"
    "e_amount e = tp_purchase_amount kettle_purchase" "e_time e = ''12:00''"
    "e_description e = Some (''Purchase: '' @ t_name kettle_item)"
    "categories (committed db') = categories with_item @
        [\<lparr>c_id = categories_seq with_item, c_name = ''To-Buy Items'', c_color = ''#6366f1'',
          c_created_at = 50\<rparr>]"
    unfolding none by auto
  then show ?thesis using h1 h2
    by (auto simp: with_item_eq seeded_tables kettle_purchase_def kettle_item_def)
qed

text \<open>
  C3. The commits of one call. When the category "To-Buy Items" is already stored,
  \<open>mark_item_purchased\<close> commits once, the item and the expense together.
\<close>

lemma mark_item_purchased_single_commit:
  assumes "find (\<lambda>t. t_id t = item_id) (to_buy_items d) = Some item"
    and "find (\<lambda>c. c_name c = ''To-Buy Items'') (categories d) = Some c"
  shows "history (snd (mark_item_purchased now item_id purchase_info current_user (SessionLocal d))) =
         [committed (snd (mark_item_purchased now item_id purchase_info current_user (SessionLocal d)))]"
  using assms
  by (simp add: mark_item_purchased_def SessionLocal_def add_expense_def db_commit_def Let_def)

text \<open>
  When the category is missing, the call commits twice: the \<open>db.commit()\<close> that stores the
  new category also flushes the pending update of the item, so the first committed state
  has the item purchased and no expense for it; the expense arrives with the second commit.
\<close>

lemma mark_item_purchased_two_commits:
  assumes "find (\<lambda>t. t_id t = item_id) (to_buy_items d) = Some item"
    and "find (\<lambda>c. c_name c = ''To-Buy Items'') (categories d) = None"
  shows "\<exists>d1 d2.
      history (snd (mark_item_purchased now item_id purchase_info current_user (SessionLocal d))) = [d1, d2]
    \<and> find (\<lambda>t. t_id t = item_id) (to_buy_items d1) = Some (set_purchase purchase_info item)
    \<and> expenses d1 = expenses d
    \<and> length (expenses d2) = length (expenses d) + 1"
proof -
  from find_Some_mem[OF assms(1)] have id: "t_id item = item_id"
    by simp
  have upd: "find (\<lambda>t. t_id t = item_id)
        (map (\<lambda>t. if t_id t = item_id then set_purchase purchase_info t else t) (to_buy_items d)) =
      Some (set_purchase purchase_info item)"
    using find_map_update[of t_id "set_purchase purchase_info" item_id "to_buy_items d"] assms(1)
    by (simp add: t_id_set_purchase)
  from assms id upd show ?thesis
    by (simp add: mark_item_purchased_def SessionLocal_def add_category_def add_expense_def
        db_commit_def Let_def)
qed

text \<open>
  C3, at a concrete input: the seeded household with one to-buy item and no category
  "To-Buy Items". The states committed by the call, each shown as the purchased flags of
  the items and the number of expenses: the first has the item purchased and no expense.
\<close>

theorem mark_item_purchased_commits_item_before_expense:
  "map (\<lambda>d. (map t_purchased (to_buy_items d), length (expenses d)))
     (history (snd (mark_item_purchased 50 1 kettle_purchase admin_row (SessionLocal with_item))))
   = [([True], 0), ([True], 1)]"
  by (simp add: mark_item_purchased_def SessionLocal_def add_category_def add_expense_def
      db_commit_def Let_def set_purchase_def with_item_eq seeded_tables
      seeded_no_to_buy_category kettle_item_def)

subsection \<open>Requests and what they keep\<close>

lemma with_current_user_cases:
  "snd (with_current_user key now cred d endpoint) = d \<or>
   (\<exists>u. snd (with_current_user key now cred d endpoint) =
          committed (snd (endpoint u (SessionLocal d))))"
  by (cases "get_current_user key now cred (SessionLocal d)")
     (auto simp: with_current_user_def Let_def case_prod_unfold)

lemma with_admin_user_cases:
  "snd (with_admin_user key now cred d endpoint) = d \<or>
   (\<exists>u. snd (with_admin_user key now cred d endpoint) =
          committed (snd (endpoint u (SessionLocal d))))"
  by (cases "get_current_user key now cred (SessionLocal d)")
     (auto simp: with_admin_user_def Let_def case_prod_unfold split: sum.splits)

text \<open>Usernames stay unique: \<open>create_user\<close> refuses a name that is taken.\<close>

lemma startup_event_usernames:
  assumes "usernames_unique d"
  shows "usernames_unique (startup_event now d)"
  using assms
  by (cases "users d")
     (simp_all add: usernames_unique_def startup_event_def SessionLocal_def add_user_def
        add_category_def add_setting_def db_commit_def Let_def)

lemma serve_usernames:
  assumes "usernames_unique d"
  shows "usernames_unique (serve key now cred req d)"
proof (cases req)
  case (POST_users x)
  have "usernames_unique (committed (snd (create_user now x u (SessionLocal d))))" for u
    using assms
    by (auto simp: usernames_unique_def create_user_def add_user_def SessionLocal_def
        db_commit_def Let_def find_None_all split: option.splits)
  with POST_users assms with_admin_user_cases[of key now cred d "create_user now x"]
  show ?thesis by auto
next
  case (DELETE_users x)
  have "usernames_unique (committed (snd (delete_user x u (SessionLocal d))))" for u
    using assms
    by (auto simp: usernames_unique_def delete_user_def SessionLocal_def db_commit_def
        Let_def distinct_map_filter split: option.splits)
  with DELETE_users assms with_admin_user_cases[of key now cred d "delete_user x"]
  show ?thesis by auto
next
  case (POST_categories x)
  have "usernames_unique (committed (snd (create_category now x u (SessionLocal d))))" for u
    using assms
    by (auto simp: usernames_unique_def create_category_def add_category_def SessionLocal_def
        db_commit_def Let_def split: option.splits)
  with POST_categories assms with_current_user_cases[of key now cred d "create_category now x"]
  show ?thesis by auto
next
  case (DELETE_categories x)
  have "usernames_unique (committed (snd (delete_category x u (SessionLocal d))))" for u
    using assms
    by (auto simp: usernames_unique_def delete_category_def SessionLocal_def db_commit_def
        Let_def split: option.splits)
  with DELETE_categories assms with_admin_user_cases[of key now cred d "delete_category x"]
  show ?thesis by auto
next
  case (POST_expenses x)
  have "usernames_unique (committed (snd (create_expense now x u (SessionLocal d))))" for u
    using assms
    by (auto simp: usernames_unique_def create_expense_def add_expense_def SessionLocal_def
        db_commit_def Let_def)
  with POST_expenses assms with_current_user_cases[of key now cred d "create_expense now x"]
  show ?thesis by auto
next
  case (DELETE_expenses x)
  have "usernames_unique (committed (snd (delete_expense x u (SessionLocal d))))" for u
    using assms
    by (auto simp: usernames_unique_def delete_expense_def SessionLocal_def db_commit_def
        Let_def split: option.splits)
  with DELETE_expenses assms with_current_user_cases[of key now cred d "delete_expense x"]
  show ?thesis by auto
next
  case (POST_to_buy x)
  have "usernames_unique (committed (snd (create_to_buy_item now x u (SessionLocal d))))" for u
    using assms
    by (auto simp: usernames_unique_def create_to_buy_item_def add_to_buy_item_def
        SessionLocal_def db_commit_def Let_def)
  with POST_to_buy assms with_current_user_cases[of key now cred d "create_to_buy_item now x"]
  show ?thesis by auto
next
  case (PATCH_to_buy_purchase x y)
  have "usernames_unique (committed (snd (mark_item_purchased now x y u (SessionLocal d))))" for u
    using assms
    by (auto simp: usernames_unique_def mark_item_purchased_def add_category_def
        add_expense_def SessionLocal_def db_commit_def Let_def split: option.splits)
  with PATCH_to_buy_purchase assms
    with_current_user_cases[of key now cred d "mark_item_purchased now x y"]
  show ?thesis by auto
next
  case (DELETE_to_buy x)
  have "usernames_unique (committed (snd (delete_to_buy_item x u (SessionLocal d))))" for u
    using assms
    by (auto simp: usernames_unique_def delete_to_buy_item_def SessionLocal_def db_commit_def
        Let_def split: option.splits)
  with DELETE_to_buy assms with_current_user_cases[of key now cred d "delete_to_buy_item x"]
  show ?thesis by auto
next
  case (PUT_settings x)
  have "usernames_unique (committed (snd (update_settings now x u (SessionLocal d))))" for u
    using assms
    by (auto simp: usernames_unique_def update_settings_def add_setting_def set_value_def
        SessionLocal_def db_commit_def Let_def split: option.splits)
  with PUT_settings assms with_admin_user_cases[of key now cred d "update_settings now x"]
  show ?thesis by auto
qed

lemma reachable_usernames_unique: "reachable key d \<Longrightarrow> usernames_unique d"
proof (induction rule: reachable.induct)
  case reachable_empty
  show ?case
    by (simp add: usernames_unique_def empty_database_def)
next
  case (reachable_startup d now)
  then show ?case
    by (simp add: startup_event_usernames)
next
  case (reachable_serve d now cred req)
  then show ?case
    by (simp add: serve_usernames)
qed

subsection \<open>Purchased items and their expenses\<close>

lemma purchase_inv_frame:
  assumes "purchase_inv d"
    and "to_buy_items d' = to_buy_items d"
    and "to_buy_items_seq d' = to_buy_items_seq d"
    and "set (expenses d) \<subseteq> set (expenses d')"
  shows "purchase_inv d'"
  using assms unfolding purchase_inv_def item_keys_ok_def purchases_recorded_def
  by fastforce

lemma startup_event_inv:
  assumes "purchase_inv d"
  shows "purchase_inv (startup_event now d)"
  using assms
  by (rule purchase_inv_frame)
     (simp_all add: startup_event_def SessionLocal_def add_user_def add_category_def
        add_setting_def db_commit_def Let_def)

lemma create_user_inv:
  assumes "purchase_inv d"
  shows "purchase_inv (committed (snd (create_user now user u (SessionLocal d))))"
  using assms
  by (rule purchase_inv_frame)
     (auto simp: create_user_def add_user_def SessionLocal_def db_commit_def Let_def
           split: option.splits)

lemma delete_user_inv:
  assumes "purchase_inv d"
  shows "purchase_inv (committed (snd (delete_user user_id u (SessionLocal d))))"
  using assms
  by (rule purchase_inv_frame)
     (auto simp: delete_user_def SessionLocal_def db_commit_def Let_def split: option.splits)

lemma create_category_inv:
  assumes "purchase_inv d"
  shows "purchase_inv (committed (snd (create_category now category u (SessionLocal d))))"
  using assms
  by (rule purchase_inv_frame)
     (auto simp: create_category_def add_category_def SessionLocal_def db_commit_def Let_def
           split: option.splits)

lemma delete_category_inv:
  assumes "purchase_inv d"
  shows "purchase_inv (committed (snd (delete_category category_id u (SessionLocal d))))"
  using assms
  by (rule purchase_inv_frame)
     (auto simp: delete_category_def SessionLocal_def db_commit_def Let_def split: option.splits)

lemma update_settings_inv:
  assumes "purchase_inv d"
  shows "purchase_inv (committed (snd (update_settings now su u (SessionLocal d))))"
  using assms
  by (rule purchase_inv_frame)
     (auto simp: update_settings_def add_setting_def set_value_def SessionLocal_def
           db_commit_def Let_def split: option.splits)

lemma create_expense_inv:
  assumes "purchase_inv d"
  shows "purchase_inv (committed (snd (create_expense now expense u (SessionLocal d))))"
  using assms
  by (rule purchase_inv_frame)
     (auto simp: create_expense_def add_expense_def SessionLocal_def db_commit_def Let_def)

lemma create_to_buy_item_inv:
  assumes "purchase_inv d"
  shows "purchase_inv (committed (snd (create_to_buy_item now item u (SessionLocal d))))"
  using assms
  by (fastforce simp: create_to_buy_item_def SessionLocal_def add_to_buy_item_def db_commit_def
      Let_def purchase_inv_def item_keys_ok_def purchases_recorded_def)

lemma delete_to_buy_item_inv:
  assumes "purchase_inv d"
  shows "purchase_inv (committed (snd (delete_to_buy_item item_id u (SessionLocal d))))"
  using assms
  by (auto simp: delete_to_buy_item_def SessionLocal_def db_commit_def Let_def
      purchase_inv_def item_keys_ok_def purchases_recorded_def distinct_map_filter
      split: option.splits)

lemma corresponds_new_expense:
  "corresponds (set_purchase p item)
     \<lparr>e_id = i, e_amount = tp_purchase_amount p, e_category_id = c,
      e_payment_mode = tp_purchase_payment_mode p, e_paid_by = tp_purchased_by p,
      e_date = tp_purchase_date p, e_time = ''12:00'',
      e_description = Some (''Purchase: '' @ t_name item), e_created_at = now\<rparr>"
  by (simp add: corresponds_def set_purchase_def)

lemma mark_item_purchased_shape:
  assumes "find (\<lambda>t. t_id t = item_id) (to_buy_items d) = Some item"
  shows "\<exists>i c.
     to_buy_items (committed (snd (mark_item_purchased now item_id p u (SessionLocal d)))) =
       map (\<lambda>t. if t_id t = t_id item then set_purchase p t else t) (to_buy_items d)
   \<and> to_buy_items_seq (committed (snd (mark_item_purchased now item_id p u (SessionLocal d)))) =
       to_buy_items_seq d
   \<and> expenses (committed (snd (mark_item_purchased now item_id p u (SessionLocal d)))) =
       expenses d @
         [\<lparr>e_id = i, e_amount = tp_purchase_amount p, e_category_id = c,
           e_payment_mode = tp_purchase_payment_mode p, e_paid_by = tp_purchased_by p,
           e_date = tp_purchase_date p, e_time = ''12:00'',
           e_description = Some (''Purchase: '' @ t_name item), e_created_at = now\<rparr>]"
  using assms
  by (cases "find (\<lambda>c. c_name c = ''To-Buy Items'') (categories d)")
     (simp_all add: mark_item_purchased_def SessionLocal_def add_category_def add_expense_def
        db_commit_def Let_def)

lemma mark_item_purchased_inv:
  assumes "purchase_inv d"
  shows "purchase_inv (committed (snd (mark_item_purchased now item_id p u (SessionLocal d))))"
proof (cases "find (\<lambda>t. t_id t = item_id) (to_buy_items d)")
  case None
  with assms show ?thesis
    by (simp add: mark_item_purchased_def SessionLocal_def)
next
  case (Some item)
  let ?d' = "committed (snd (mark_item_purchased now item_id p u (SessionLocal d)))"
  from mark_item_purchased_shape[OF Some, of now p u] obtain i c where
    items: "to_buy_items ?d' =
        map (\<lambda>t. if t_id t = t_id item then set_purchase p t else t) (to_buy_items d)"
    and seq: "to_buy_items_seq ?d' = to_buy_items_seq d"
    and exps: "expenses ?d' = expenses d @
        [\<lparr>e_id = i, e_amount = tp_purchase_amount p, e_category_id = c,
          e_payment_mode = tp_purchase_payment_mode p, e_paid_by = tp_purchased_by p,
          e_date = tp_purchase_date p, e_time = ''12:00'',
          e_description = Some (''Purchase: '' @ t_name item), e_created_at = now\<rparr>]"
    by blast
  from assms have dist: "distinct (map t_id (to_buy_items d))"
    and bound: "\<forall>t \<in> set (to_buy_items d). t_id t < to_buy_items_seq d"
    and rec: "purchases_recorded d"
    by (simp_all add: purchase_inv_def item_keys_ok_def)
  from find_Some_mem[OF Some] have item_in: "item \<in> set (to_buy_items d)"
    by simp
  have ids: "map t_id (to_buy_items ?d') = map t_id (to_buy_items d)"
    unfolding items by (simp add: t_id_set_purchase o_def cong: if_cong)
  have keys: "item_keys_ok ?d'"
    unfolding item_keys_ok_def ids seq using dist bound
    by (metis (no_types, lifting) ids image_iff list.set_map items)
  have "purchases_recorded ?d'"
    unfolding purchases_recorded_def
  proof (intro ballI impI)
    fix t'
    assume t': "t' \<in> set (to_buy_items ?d')" and bought: "t_purchased t'"
    from t' obtain t where t: "t \<in> set (to_buy_items d)"
      and t'_eq: "t' = (if t_id t = t_id item then set_purchase p t else t)"
      unfolding items by auto
    show "\<exists>e \<in> set (expenses ?d'). corresponds t' e"
    proof (cases "t_id t = t_id item")
      case True
      with dist t item_in have "t = item"
        by (meson distinct_map inj_onD)
      with True t'_eq have "t' = set_purchase p item"
        by simp
      then show ?thesis
        unfolding exps using corresponds_new_expense by auto
    next
      case False
      with t'_eq have "t' = t"
        by simp
      with bought t rec obtain e where "e \<in> set (expenses d)" and "corresponds t' e"
        unfolding purchases_recorded_def by blast
      then show ?thesis
        unfolding exps by auto
    qed
  qed
  with keys show ?thesis
    by (simp add: purchase_inv_def)
qed

lemma serve_purchase_inv:
  assumes "purchase_inv d" and "\<not> is_delete_expense req"
  shows "purchase_inv (serve key now cred req d)"
proof (cases req)
  case (POST_users x)
  with assms(1) with_admin_user_cases[of key now cred d "create_user now x"]
  show ?thesis by (auto simp: create_user_inv)
next
  case (DELETE_users x)
  with assms(1) with_admin_user_cases[of key now cred d "delete_user x"]
  show ?thesis by (auto simp: delete_user_inv)
next
  case (POST_categories x)
  with assms(1) with_current_user_cases[of key now cred d "create_category now x"]
  show ?thesis by (auto simp: create_category_inv)
next
  case (DELETE_categories x)
  with assms(1) with_admin_user_cases[of key now cred d "delete_category x"]
  show ?thesis by (auto simp: delete_category_inv)
next
  case (POST_expenses x)
  with assms(1) with_current_user_cases[of key now cred d "create_expense now x"]
  show ?thesis by (auto simp: create_expense_inv)
next
  case (DELETE_expenses x)
  with assms(2) show ?thesis by simp
next
  case (POST_to_buy x)
  with assms(1) with_current_user_cases[of key now cred d "create_to_buy_item now x"]
  show ?thesis by (auto simp: create_to_buy_item_inv)
next
  case (PATCH_to_buy_purchase x y)
  with assms(1) with_current_user_cases[of key now cred d "mark_item_purchased now x y"]
  show ?thesis by (auto simp: mark_item_purchased_inv)
next
  case (DELETE_to_buy x)
  with assms(1) with_current_user_cases[of key now cred d "delete_to_buy_item x"]
  show ?thesis by (auto simp: delete_to_buy_item_inv)
next
  case (PUT_settings x)
  with assms(1) with_admin_user_cases[of key now cred d "update_settings now x"]
  show ?thesis by (auto simp: update_settings_inv)
qed

lemma reachable_keeping_expenses_inv:
  "reachable_keeping_expenses key d \<Longrightarrow> purchase_inv d"
proof (induction rule: reachable_keeping_expenses.induct)
  case keeping_empty
  show ?case
    by (simp add: purchase_inv_def item_keys_ok_def purchases_recorded_def empty_database_def)
next
  case (keeping_startup d now)
  then show ?case
    by (simp add: startup_event_inv)
next
  case (keeping_serve d req now cred)
  then show ?case
    by (simp add: serve_purchase_inv)
qed

lemma example_states_reachable:
  "reachable example_key expense_deleted \<and> reachable example_key purchased_twice"
  unfolding expense_deleted_def purchased_twice_def purchased_db_def with_item_def seeded_def
  by (intro conjI reachable_serve reachable_startup reachable_empty)

lemma purchased_db_keeping_expenses: "reachable_keeping_expenses example_key purchased_db"
  unfolding purchased_db_def with_item_def seeded_def
  by (intro keeping_serve keeping_startup keeping_empty) simp_all

text \<open>
  C2, as the specification states it: refuted in two reachable states. After the seeded
  household adds a to-buy item, marks it purchased and deletes expense 1, the item is
  purchased and no expense corresponds to it. After it marks the item purchased a second
  time instead, two expenses correspond to it.
\<close>

theorem one_expense_per_purchase_counterexample:
  "reachable example_key expense_deleted
   \<and> \<not> one_expense_per_purchase expense_deleted
   \<and> to_buy_items expense_deleted = [set_purchase kettle_purchase kettle_item]
   \<and> t_purchased (set_purchase kettle_purchase kettle_item)
   \<and> filter (corresponds (set_purchase kettle_purchase kettle_item)) (expenses expense_deleted) = []
   \<and> reachable example_key purchased_twice
   \<and> \<not> one_expense_per_purchase purchased_twice
   \<and> to_buy_items purchased_twice = [set_purchase kettle_purchase kettle_item]
   \<and> length (filter (corresponds (set_purchase kettle_purchase kettle_item))
               (expenses purchased_twice)) = 2"
  using example_states_reachable
  by (simp add: one_expense_per_purchase_def expense_deleted_eq purchased_twice_eq
      purchased_db_eq corresponds_def set_purchase_def kettle_purchase_def kettle_item_def
      kettle_expense_def)

text \<open>
  C2, amended. In every state the application reaches from an empty database by the
  startup event and by requests other than the deletion of an expense, every to-buy item
  with purchased = true has at least one corresponding expense row: an expense with the
  item's purchaser, amount, payment mode and purchase date, the time "12:00" and the
  description "Purchase: " followed by the item's name.
\<close>

theorem purchased_items_keep_an_expense:
  "reachable_keeping_expenses key d \<Longrightarrow> purchases_recorded d"
  using reachable_keeping_expenses_inv[of key d] by (simp add: purchase_inv_def)

theorem purchased_items_keep_an_expense_witness:
  "reachable_keeping_expenses example_key purchased_db
   \<and> purchases_recorded purchased_db
   \<and> to_buy_items purchased_db = [set_purchase kettle_purchase kettle_item]
   \<and> expenses purchased_db = [kettle_expense 1 50]
   \<and> corresponds (set_purchase kettle_purchase kettle_item) (kettle_expense 1 50)"
  using purchased_items_keep_an_expense[OF purchased_db_keeping_expenses]
    purchased_db_keeping_expenses
  by (simp add: purchased_db_eq corresponds_def set_purchase_def kettle_purchase_def
      kettle_item_def kettle_expense_def)

end
